theory Spec2Isabelle
  imports Complex_Main
begin

section \<open>The Fibonacci work unit\<close>

text \<open>
  \<^verbatim>\<open>calculateFibonacci(n)\<close> of benchmark.js takes a Number and returns a BigInt.
  The index and the loop counter are Numbers that hold integers; they are modelled
  as \<open>int\<close>. A Number holds every integer up to \<open>2 ^ 53\<close> exactly, and
  \<open>2 ^ 53 + 1\<close> is not a Number: the sum \<open>2 ^ 53 + 1\<close> rounds back to \<open>2 ^ 53\<close>.
  The increment \<^verbatim>\<open>i++\<close> of the loop counter is modelled with that rounding
  (the counter starts at 2 and moves in steps of one, so it never holds a value
  above \<open>2 ^ 53\<close>). BigInt values are unbounded and are modelled as \<open>int\<close>.
\<close>

definition number_incr :: "int \<Rightarrow> int" where
  "number_incr i = (if i < 2 ^ 53 then i + 1 else i)"

text \<open>
  The loop \<^verbatim>\<open>for (let i = 2; i <= n; i++) { let temp = a + b; a = b; b = temp; }\<close>
  followed by \<^verbatim>\<open>return b\<close>. A run of the loop that never leaves it is the value
  \<open>None\<close>.
\<close>

partial_function (option) fib_loop :: "int \<Rightarrow> int \<Rightarrow> int \<Rightarrow> int \<Rightarrow> int option" where
  "fib_loop n i a b = (if i \<le> n then fib_loop n (number_incr i) b (a + b) else Some b)"

definition calculateFibonacci :: "int \<Rightarrow> int option" where
  "calculateFibonacci n = (if n \<le> 1 then Some n else fib_loop n 2 0 1)"

text \<open>The standard Fibonacci sequence, as the specification names it.\<close>

fun fibonacci :: "nat \<Rightarrow> int" where
  "fibonacci 0 = 0"
| "fibonacci (Suc 0) = 1"
| "fibonacci (Suc (Suc k)) = fibonacci k + fibonacci (Suc k)"


section \<open>Numbers\<close>

text \<open>
  A Number is a finite value, one of the two infinities, or NaN. Finite values are
  modelled by real numbers: sums, products and quotients are the exact ones, the
  rounding of a result to 53 significant bits is not modelled, and zero carries no
  sign (the quantities of the benchmark are counts, byte sizes and durations, none
  of them negative). What is modelled is what decides the behaviour of the metric
  formulas: \<^verbatim>\<open>0 / 0\<close> is NaN, \<^verbatim>\<open>x / 0\<close> is an infinity, NaN spreads through
  every operation, and \<^verbatim>\<open>Math.max()\<close> of nothing is \<^verbatim>\<open>-Infinity\<close>.
\<close>

datatype number = Fin real | PosInf | NegInf | NaN

fun number_add :: "number \<Rightarrow> number \<Rightarrow> number" where
  "number_add NaN y = NaN"
| "number_add x NaN = NaN"
| "number_add (Fin a) (Fin b) = Fin (a + b)"
| "number_add PosInf NegInf = NaN"
| "number_add NegInf PosInf = NaN"
| "number_add PosInf y = PosInf"
| "number_add NegInf y = NegInf"
| "number_add (Fin a) y = y"

fun number_neg :: "number \<Rightarrow> number" where
  "number_neg (Fin a) = Fin (- a)"
| "number_neg PosInf = NegInf"
| "number_neg NegInf = PosInf"
| "number_neg NaN = NaN"

definition number_sub :: "number \<Rightarrow> number \<Rightarrow> number" where
  "number_sub x y = number_add x (number_neg y)"

fun number_sign :: "number \<Rightarrow> real" where
  "number_sign (Fin a) = sgn a"
| "number_sign PosInf = 1"
| "number_sign NegInf = - 1"
| "number_sign NaN = 0"

text \<open>The infinity of a given sign; NaN where the sign is that of zero.\<close>

definition signed_inf :: "real \<Rightarrow> number" where
  "signed_inf s = (if s = 0 then NaN else if 0 < s then PosInf else NegInf)"

fun number_mul :: "number \<Rightarrow> number \<Rightarrow> number" where
  "number_mul NaN y = NaN"
| "number_mul x NaN = NaN"
| "number_mul (Fin a) (Fin b) = Fin (a * b)"
| "number_mul x y = signed_inf (number_sign x * number_sign y)"

fun number_div :: "number \<Rightarrow> number \<Rightarrow> number" where
  "number_div NaN y = NaN"
| "number_div x NaN = NaN"
| "number_div (Fin a) (Fin b) = (if b = 0 then signed_inf a else Fin (a / b))"
| "number_div (Fin a) y = Fin 0"
| "number_div x (Fin b) = signed_inf (number_sign x * (if b < 0 then - 1 else 1))"
| "number_div x y = NaN"

text \<open>\<^verbatim>\<open>Math.round\<close> rounds to the nearest integer, a half upwards.\<close>

fun Math_round :: "number \<Rightarrow> number" where
  "Math_round (Fin a) = Fin (of_int \<lfloor>a + 1 / 2\<rfloor>)"
| "Math_round x = x"

fun Math_floor :: "number \<Rightarrow> number" where
  "Math_floor (Fin a) = Fin (of_int \<lfloor>a\<rfloor>)"
| "Math_floor x = x"

fun number_less :: "number \<Rightarrow> number \<Rightarrow> bool" where
  "number_less NaN y = False"
| "number_less x NaN = False"
| "number_less (Fin a) (Fin b) = (a < b)"
| "number_less x PosInf = (x \<noteq> PosInf)"
| "number_less NegInf y = (y \<noteq> NegInf)"
| "number_less x y = False"

definition larger :: "number \<Rightarrow> number \<Rightarrow> number" where
  "larger acc x = (if acc = NaN \<or> x = NaN then NaN else if number_less acc x then x else acc)"

definition smaller :: "number \<Rightarrow> number \<Rightarrow> number" where
  "smaller acc x = (if acc = NaN \<or> x = NaN then NaN else if number_less x acc then x else acc)"

text \<open>\<^verbatim>\<open>Math.max(...xs)\<close> and \<^verbatim>\<open>Math.min(...xs)\<close>.\<close>

definition Math_max :: "number list \<Rightarrow> number" where
  "Math_max xs = foldl larger NegInf xs"

definition Math_min :: "number list \<Rightarrow> number" where
  "Math_min xs = foldl smaller PosInf xs"


section \<open>Numbers as text\<close>

definition digit_char :: "nat \<Rightarrow> char" where
  "digit_char d = ''0123456789'' ! d"

text \<open>The decimal digits of a non-negative integer.\<close>

fun decimal :: "nat \<Rightarrow> string" where
  "decimal n = (if n < 10 then [digit_char n] else decimal (n div 10) @ [digit_char (n mod 10)])"

declare decimal.simps [simp del]

text \<open>\<^verbatim>\<open>toString()\<close> of a BigInt.\<close>

definition bigint_toString :: "int \<Rightarrow> string" where
  "bigint_toString v = (if v < 0 then ''-'' @ decimal (nat (- v)) else decimal (nat v))"

text \<open>
  \<^verbatim>\<open>x.toFixed(2)\<close>: the sign, then the integer \<open>n\<close> nearest to \<open>100 \<cdot> |x|\<close> (the
  larger one of two equally near), written with a point before its last two
  digits. Values of \<open>10 ^ 21\<close> and more, which \<^verbatim>\<open>toFixed\<close> writes with an
  exponent, do not occur among byte sizes and durations.
\<close>

fun toFixed2 :: "number \<Rightarrow> string" where
  "toFixed2 NaN = ''NaN''"
| "toFixed2 PosInf = ''Infinity''"
| "toFixed2 NegInf = ''-Infinity''"
| "toFixed2 (Fin x) =
     (let n = nat \<lfloor>\<bar>x\<bar> * 100 + 1 / 2\<rfloor>
      in (if x < 0 then ''-'' else []) @ decimal (n div 100) @ ''.''
           @ [digit_char (n mod 100 div 10), digit_char (n mod 10)])"

definition is_digit :: "char \<Rightarrow> bool" where
  "is_digit c = (c \<in> set ''0123456789'')"

definition digit_value :: "char \<Rightarrow> nat" where
  "digit_value c = of_char c - 48"

definition digits_value :: "string \<Rightarrow> nat" where
  "digits_value ds = foldl (\<lambda>acc c. 10 * acc + digit_value c) 0 ds"

text \<open>
  \<^verbatim>\<open>parseFloat(s)\<close> on the texts the benchmark gives it, which come from
  \<^verbatim>\<open>toFixed(2)\<close> and from the digits of an integer: an optional sign, then
  \<^verbatim>\<open>Infinity\<close> or digits with an optional fraction; NaN where no digit is found.
  (Leading white space and exponents, which \<^verbatim>\<open>parseFloat\<close> also reads, do not
  occur in those texts.)
\<close>

definition parseFloat :: "string \<Rightarrow> number" where
  "parseFloat s =
     (let neg = (take 1 s = ''-'');
          r = (if take 1 s = ''-'' \<or> take 1 s = ''+'' then drop 1 s else s);
          ip = takeWhile is_digit r;
          fp = (case dropWhile is_digit r of
                  [] \<Rightarrow> []
                | c # t \<Rightarrow> if c = CHR ''.'' then takeWhile is_digit t else [])
      in if take 8 r = ''Infinity'' then (if neg then NegInf else PosInf)
         else if ip = [] \<and> fp = [] then NaN
         else Fin ((if neg then - 1 else 1)
                * (of_nat (digits_value ip) + of_nat (digits_value fp) / 10 ^ length fp)))"

text \<open>\<^verbatim>\<open>s.split(' ')[0]\<close>: the text before the first space.\<close>

definition first_word :: "string \<Rightarrow> string" where
  "first_word s = takeWhile (\<lambda>c. c \<noteq> CHR '' '') s"


section \<open>Memory readings\<close>

text \<open>A reading of \<^verbatim>\<open>process.memoryUsage()\<close>, in bytes.\<close>

record process_memory =
  rss :: nat
  heapUsed :: nat
  heapTotal :: nat
  externalBytes :: nat
  arrayBuffers :: nat

definition formatBytes :: "nat \<Rightarrow> string" where
  "formatBytes bytes =
     (if bytes \<ge> 1024 * 1024 * 1024
        then toFixed2 (Fin (of_nat bytes / (1024 * 1024 * 1024))) @ '' GB''
      else if bytes \<ge> 1024 * 1024
        then toFixed2 (Fin (of_nat bytes / (1024 * 1024))) @ '' MB''
      else if bytes \<ge> 1024
        then toFixed2 (Fin (of_nat bytes / 1024)) @ '' KB''
      else decimal bytes @ '' B'')"

text \<open>The object \<^verbatim>\<open>getMemoryUsage()\<close> returns: every field a text with its unit.\<close>

record memory_usage =
  rssText :: string
  heapUsedText :: string
  heapTotalText :: string
  externalText :: string
  arrayBuffersText :: string

text \<open>\<^verbatim>\<open>getMemoryUsage()\<close>, given the reading its call of \<^verbatim>\<open>process.memoryUsage()\<close> sees.\<close>

definition getMemoryUsage :: "process_memory \<Rightarrow> memory_usage" where
  "getMemoryUsage usage =
     \<lparr>rssText = formatBytes (rss usage),
      heapUsedText = formatBytes (heapUsed usage),
      heapTotalText = formatBytes (heapTotal usage),
      externalText = formatBytes (externalBytes usage),
      arrayBuffersText = formatBytes (arrayBuffers usage)\<rparr>"


section \<open>System information\<close>

record cpu_summary =
  model :: string
  cores :: nat

record system_info =
  hostname :: string
  cpu :: cpu_summary
  ram :: string

text \<open>
  \<^verbatim>\<open>getSystemInfo()\<close>, given what \<^verbatim>\<open>os.cpus()\<close> (the model name of each entry),
  \<^verbatim>\<open>os.totalmem()\<close> and \<^verbatim>\<open>os.hostname()\<close> return.
\<close>

definition getSystemInfo :: "string list \<Rightarrow> nat \<Rightarrow> string \<Rightarrow> system_info" where
  "getSystemInfo cpus totalMemoryBytes host =
     \<lparr>hostname = host,
      cpu = \<lparr>model = (if length cpus > 0 then cpus ! 0 else ''N/A''), cores = length cpus\<rparr>,
      ram = toFixed2 (Fin (of_nat totalMemoryBytes / (1024 * 1024 * 1024))) @ '' GB''\<rparr>"


section \<open>One benchmark run\<close>

text \<open>
  What the main thread holds before the first run: the system information, the
  two settings \<^verbatim>\<open>BENCHMARK_DURATION_MS\<close> and \<^verbatim>\<open>MAX_RAM_MB\<close> (\<open>None\<close> for
  \<^verbatim>\<open>null\<close>), the resolved configuration, and \<^verbatim>\<open>startTime\<close>, the reading of
  \<^verbatim>\<open>process.hrtime.bigint()\<close> (nanoseconds) taken once, before
  \<^verbatim>\<open>runSingleBenchmark\<close> is defined.
\<close>

record benchmark_env =
  systemInfo :: system_info
  BENCHMARK_DURATION_MS :: int
  MAX_RAM_MB :: "nat option"
  runs :: nat
  outputFile :: "string option"
  postUrl :: "string option"
  startTime :: int

definition numCores :: "benchmark_env \<Rightarrow> nat" where
  "numCores env = cores (cpu (systemInfo env))"

record system_summary =
  summaryHostname :: string
  cpuModel :: string
  cpuCores :: nat
  totalRAM :: string

definition summary :: "system_info \<Rightarrow> system_summary" where
  "summary info =
     \<lparr>summaryHostname = hostname info, cpuModel = model (cpu info),
      cpuCores = cores (cpu info), totalRAM = ram info\<rparr>"

record run_configuration =
  benchmarkDurationMs :: int
  maxRamMB :: "nat option"
  actualDurationMs :: number

record performance_metrics =
  calculationsPerSecond :: number
  coreEfficiency :: number
  memoryEfficiency :: number
  overallScore :: number

record memory_report =
  peak :: memory_usage
  final :: memory_usage

text \<open>
  The run result. Its fields \<^verbatim>\<open>hostname\<close>, \<^verbatim>\<open>cpuModel\<close>, \<^verbatim>\<open>cpuCores\<close> and
  \<^verbatim>\<open>totalRAM\<close> are grouped as \<open>system\<close>; the wall-clock \<^verbatim>\<open>timestamp\<close> text is
  left out.
\<close>

record run_result =
  runNumber :: nat
  system :: system_summary
  configuration :: run_configuration
  totalFibonacciIndex :: int
  averageFibonacciIndexPerCore :: number
  lastFibonacciNumber :: string
  activeWorkersAtEnd :: int
  performanceMetrics :: performance_metrics
  memoryUsage :: memory_report

datatype run_error = RAM_LIMIT_EXCEEDED

type_synonym outcome = "run_error + run_result"

text \<open>
  The variables of one call of \<^verbatim>\<open>runSingleBenchmark\<close>, and the promise it returns
  (\<open>None\<close> while pending). \<open>workers\<close> holds the \<^verbatim>\<open>workerId\<close> of every worker
  created, \<open>intervalCleared\<close> records \<^verbatim>\<open>clearInterval\<close>, \<open>workersTerminated\<close>
  records \<^verbatim>\<open>worker.terminate()\<close> on every worker.
\<close>

record run_state =
  workers :: "nat list"
  totalFibIndex :: int
  maxFibNumber :: int
  activeWorkers :: int
  peakMemoryUsage :: memory_usage
  peakRSSBytes :: nat
  intervalCleared :: bool
  workersTerminated :: bool
  promise :: "outcome option"

text \<open>
  The callbacks the event loop delivers to a run, each with what it reads from
  outside:
  \<^item> a message of worker \<open>i\<close>, with \<^verbatim>\<open>data.fibIndex\<close> and the integer that
    \<^verbatim>\<open>BigInt(data.lastFibonacciNumber)\<close> yields;
  \<^item> the \<^verbatim>\<open>'error'\<close> event of worker \<open>i\<close>;
  \<^item> the \<^verbatim>\<open>'exit'\<close> event of worker \<open>i\<close>, with its exit code;
  \<^item> a tick of the one-second memory check, with the reading of its own
    \<^verbatim>\<open>process.memoryUsage()\<close> and the reading that \<^verbatim>\<open>getMemoryUsage()\<close> sees if
    it is called;
  \<^item> the timer at the end of the duration, with the reading of
    \<^verbatim>\<open>process.hrtime.bigint()\<close> and the reading that \<^verbatim>\<open>getMemoryUsage()\<close> sees.
\<close>

datatype event =
    WorkerMessage nat int int
  | WorkerError nat
  | WorkerExit nat int
  | MemoryCheck process_memory process_memory
  | DurationTimer int process_memory

text \<open>\<^verbatim>\<open>resolve(v)\<close>: settles the promise if it is pending, and is ignored otherwise.\<close>

definition resolve :: "outcome \<Rightarrow> run_state \<Rightarrow> run_state" where
  "resolve v s = (if promise s = None then s\<lparr>promise := Some v\<rparr> else s)"

text \<open>
  The start of \<^verbatim>\<open>runSingleBenchmark\<close>: the loop
  \<^verbatim>\<open>for (let i = 0; i < numCores; i++)\<close> creates one worker for each \<open>i\<close>, the
  peak is set from two readings (one by \<^verbatim>\<open>getMemoryUsage()\<close>, one by
  \<^verbatim>\<open>process.memoryUsage().rss\<close>), interval and timer are set.
\<close>

definition start_run :: "benchmark_env \<Rightarrow> process_memory \<Rightarrow> process_memory \<Rightarrow> run_state" where
  "start_run env usage0 usage1 =
     \<lparr>workers = [0..<numCores env],
      totalFibIndex = 0, maxFibNumber = 0, activeWorkers = int (numCores env),
      peakMemoryUsage = getMemoryUsage usage0, peakRSSBytes = rss usage1,
      intervalCleared = False, workersTerminated = False, promise = None\<rparr>"

definition on_message :: "int \<Rightarrow> int \<Rightarrow> run_state \<Rightarrow> run_state" where
  "on_message fibIndex currentFibNumber s =
     (let s1 = s\<lparr>totalFibIndex := totalFibIndex s + fibIndex\<rparr>
      in if currentFibNumber > maxFibNumber s1 then s1\<lparr>maxFibNumber := currentFibNumber\<rparr> else s1)"

definition on_error :: "run_state \<Rightarrow> run_state" where
  "on_error s = s\<lparr>activeWorkers := activeWorkers s - 1\<rparr>"

definition on_exit :: "int \<Rightarrow> run_state \<Rightarrow> run_state" where
  "on_exit code s = s\<lparr>activeWorkers := activeWorkers s - 1\<rparr>"

definition over_limit :: "benchmark_env \<Rightarrow> nat \<Rightarrow> bool" where
  "over_limit env currentRSS =
     (case MAX_RAM_MB env of None \<Rightarrow> False | Some m \<Rightarrow> currentRSS > m * 1024 * 1024)"

text \<open>The memory check; a cleared interval delivers no tick.\<close>

definition on_memory_check ::
  "benchmark_env \<Rightarrow> process_memory \<Rightarrow> process_memory \<Rightarrow> run_state \<Rightarrow> run_state" where
  "on_memory_check env currentMemory usage s =
     (if intervalCleared s then s
      else let currentRSS = rss currentMemory
        in if over_limit env currentRSS
           then resolve (Inl RAM_LIMIT_EXCEEDED)
                  (s\<lparr>intervalCleared := True, workersTerminated := True\<rparr>)
           else if currentRSS > peakRSSBytes s
           then s\<lparr>peakRSSBytes := currentRSS, peakMemoryUsage := getMemoryUsage usage\<rparr>
           else s)"

text \<open>The metrics and the result object built in the timer's callback.\<close>

definition run_metrics :: "benchmark_env \<Rightarrow> run_state \<Rightarrow> int \<Rightarrow> performance_metrics" where
  "run_metrics env s endTime =
     (let durationNs = endTime - startTime env;
          durationMs = number_div (Fin (of_int durationNs)) (Fin 1000000);
          total = Fin (of_int (totalFibIndex s));
          n = Fin (of_nat (numCores env));
          calculationsPerSecond =
            Math_round (number_div total (number_div durationMs (Fin 1000)));
          coreEfficiency =
            Math_round (number_mul (number_div (number_div total n) (number_div total n)) (Fin 100));
          memoryEfficiency =
            Math_round (number_mul
              (number_div total (parseFloat (first_word (rssText (peakMemoryUsage s))))) (Fin 1000));
          overallScore =
            Math_round (number_mul
              (number_mul calculationsPerSecond (number_div coreEfficiency (Fin 100)))
              (number_div memoryEfficiency (Fin 1000)))
      in \<lparr>calculationsPerSecond = calculationsPerSecond, coreEfficiency = coreEfficiency,
          memoryEfficiency = memoryEfficiency, overallScore = overallScore\<rparr>)"

definition run_result_of ::
  "benchmark_env \<Rightarrow> nat \<Rightarrow> run_state \<Rightarrow> int \<Rightarrow> process_memory \<Rightarrow> run_result" where
  "run_result_of env runNo s endTime usage =
     (let durationNs = endTime - startTime env;
          durationMs = number_div (Fin (of_int durationNs)) (Fin 1000000);
          avgFibIndex =
            Math_floor (number_div (Fin (of_int (totalFibIndex s))) (Fin (of_nat (numCores env))));
          finalMemoryUsage = getMemoryUsage usage
      in \<lparr>runNumber = runNo,
          system = summary (systemInfo env),
          configuration =
            \<lparr>benchmarkDurationMs = BENCHMARK_DURATION_MS env, maxRamMB = MAX_RAM_MB env,
             actualDurationMs = parseFloat (toFixed2 durationMs)\<rparr>,
          totalFibonacciIndex = totalFibIndex s,
          averageFibonacciIndexPerCore = avgFibIndex,
          lastFibonacciNumber = bigint_toString (maxFibNumber s),
          activeWorkersAtEnd = activeWorkers s,
          performanceMetrics = run_metrics env s endTime,
          memoryUsage = \<lparr>peak = peakMemoryUsage s, final = finalMemoryUsage\<rparr>\<rparr>)"

definition on_timer ::
  "benchmark_env \<Rightarrow> nat \<Rightarrow> int \<Rightarrow> process_memory \<Rightarrow> run_state \<Rightarrow> run_state" where
  "on_timer env runNo endTime usage s =
     (let s1 = s\<lparr>workersTerminated := True, intervalCleared := True\<rparr>
      in resolve (Inr (run_result_of env runNo s1 endTime usage)) s1)"

fun handle :: "benchmark_env \<Rightarrow> nat \<Rightarrow> run_state \<Rightarrow> event \<Rightarrow> run_state" where
  "handle env runNo s (WorkerMessage i fibIndex v) = on_message fibIndex v s"
| "handle env runNo s (WorkerError i) = on_error s"
| "handle env runNo s (WorkerExit i code) = on_exit code s"
| "handle env runNo s (MemoryCheck currentMemory usage) =
     on_memory_check env currentMemory usage s"
| "handle env runNo s (DurationTimer endTime usage) = on_timer env runNo endTime usage s"

text \<open>What a run receives from outside: the two first readings and its callbacks in order.\<close>

record run_input =
  firstUsage :: process_memory
  firstRSS :: process_memory
  events :: "event list"

definition run_events :: "benchmark_env \<Rightarrow> nat \<Rightarrow> run_input \<Rightarrow> run_state" where
  "run_events env runNo inp =
     foldl (handle env runNo) (start_run env (firstUsage inp) (firstRSS inp)) (events inp)"

text \<open>
  \<^verbatim>\<open>await runSingleBenchmark(runNumber)\<close>: the value the promise is settled with;
  \<open>None\<close> if none of the callbacks settles it, in which case the caller waits
  for ever.
\<close>

definition runSingleBenchmark :: "benchmark_env \<Rightarrow> nat \<Rightarrow> run_input \<Rightarrow> outcome option" where
  "runSingleBenchmark env runNo inp = promise (run_events env runNo inp)"


section \<open>The sequence of runs\<close>

text \<open>
  What \<^verbatim>\<open>runAllBenchmarks\<close> does besides collecting results: it starts a run, it
  reports a failed run, it waits two seconds before the next run.
\<close>

datatype action = StartRun nat | RunFailed nat run_error | Cooldown

record sequence_state =
  allRuns :: "run_result list"
  actions :: "action list"

text \<open>
  The loop \<^verbatim>\<open>for (let run = 1; run <= finalConfig.runs; run++)\<close>, with its
  \<^verbatim>\<open>break\<close> on a failed run. The inputs of the runs are given by run number.
\<close>

function run_loop ::
  "benchmark_env \<Rightarrow> (nat \<Rightarrow> run_input) \<Rightarrow> nat \<Rightarrow> sequence_state \<Rightarrow> sequence_state option" where
  "run_loop env inputs run st =
     (if run \<le> runs env then
        (case runSingleBenchmark env run (inputs run) of
           None \<Rightarrow> None
         | Some (Inl err) \<Rightarrow>
             Some (st\<lparr>actions := actions st @ [StartRun run, RunFailed run err]\<rparr>)
         | Some (Inr runResult) \<Rightarrow>
             run_loop env inputs (run + 1)
               (st\<lparr>allRuns := allRuns st @ [runResult],
                   actions := actions st @ [StartRun run]
                     @ (if run < runs env then [Cooldown] else [])\<rparr>))
      else Some st)"
  by pat_completeness auto
termination
  by (relation "measure (\<lambda>(env, inputs, run, st). Suc (runs env) - run)") auto

declare run_loop.simps [simp del]

record benchmark_info =
  totalRuns :: nat
  completedRuns :: nat
  totalDurationMs :: number

record report_configuration =
  reportDurationMs :: int
  reportMaxRamMB :: "nat option"
  reportOutputFile :: "string option"
  reportPostUrl :: "string option"

record aggregated_results =
  totalCalculations :: number
  averageCalculationsPerRun :: number
  averageScore :: number
  bestScore :: number
  worstScore :: number
  scoreVariance :: number

text \<open>
  The results object. Its \<^verbatim>\<open>systemInfo\<close> and \<^verbatim>\<open>configuration\<close> fields are named
  \<open>reportSystem\<close> and \<open>reportConfiguration\<close> here; the two wall-clock date texts
  of \<^verbatim>\<open>benchmarkInfo\<close> are left out.
\<close>

record benchmark_report =
  benchmarkInfo :: benchmark_info
  reportSystem :: system_summary
  reportConfiguration :: report_configuration
  aggregatedResults :: aggregated_results
  individualRuns :: "run_result list"

definition score :: "run_result \<Rightarrow> number" where
  "score run = overallScore (performanceMetrics run)"

definition aggregate :: "run_result list \<Rightarrow> aggregated_results" where
  "aggregate rs =
     (let totalCalculations =
            foldl (\<lambda>sum run. number_add sum (Fin (of_int (totalFibonacciIndex run)))) (Fin 0) rs;
          avgScore =
            Math_round (number_div (foldl (\<lambda>sum run. number_add sum (score run)) (Fin 0) rs)
              (Fin (of_nat (length rs))));
          bestScore = Math_max (map score rs);
          worstScore = Math_min (map score rs)
      in \<lparr>totalCalculations = totalCalculations,
          averageCalculationsPerRun =
            Math_round (number_div totalCalculations (Fin (of_nat (length rs)))),
          averageScore = avgScore,
          bestScore = bestScore,
          worstScore = worstScore,
          scoreVariance = Math_round (number_sub bestScore worstScore)\<rparr>)"

text \<open>The results object, given the final reading of \<^verbatim>\<open>process.hrtime.bigint()\<close>.\<close>

definition build_results :: "benchmark_env \<Rightarrow> run_result list \<Rightarrow> int \<Rightarrow> benchmark_report" where
  "build_results env rs now =
     (let totalDuration = number_div (Fin (of_int (now - startTime env))) (Fin 1000000)
      in \<lparr>benchmarkInfo =
            \<lparr>totalRuns = runs env, completedRuns = length rs,
             totalDurationMs = parseFloat (toFixed2 totalDuration)\<rparr>,
          reportSystem = summary (systemInfo env),
          reportConfiguration =
            \<lparr>reportDurationMs = BENCHMARK_DURATION_MS env, reportMaxRamMB = MAX_RAM_MB env,
             reportOutputFile = outputFile env, reportPostUrl = postUrl env\<rparr>,
          aggregatedResults = aggregate rs,
          individualRuns = rs\<rparr>)"

text \<open>
  \<^verbatim>\<open>runAllBenchmarks\<close> up to the results object (printing, saving and posting it
  follow): the report and the actions taken, or \<open>None\<close> if a run never settles.
\<close>

definition runAllBenchmarks ::
  "benchmark_env \<Rightarrow> (nat \<Rightarrow> run_input) \<Rightarrow> int \<Rightarrow> (benchmark_report \<times> action list) option" where
  "runAllBenchmarks env inputs now =
     (case run_loop env inputs 1 \<lparr>allRuns = [], actions = []\<rparr> of
        None \<Rightarrow> None
      | Some st \<Rightarrow> Some (build_results env (allRuns st) now, actions st))"


section \<open>Auxiliary definitions\<close>

text \<open>The number that the metric formula reads from a formatted byte count.\<close>

definition shown_value :: "nat \<Rightarrow> real" where
  "shown_value bytes =
     (if bytes \<ge> 1024 * 1024 * 1024
        then real (nat \<lfloor>real bytes / (1024 * 1024 * 1024) * 100 + 1 / 2\<rfloor>) / 100
      else if bytes \<ge> 1024 * 1024
        then real (nat \<lfloor>real bytes / (1024 * 1024) * 100 + 1 / 2\<rfloor>) / 100
      else if bytes \<ge> 1024
        then real (nat \<lfloor>real bytes / 1024 * 100 + 1 / 2\<rfloor>) / 100
      else real bytes)"

text \<open>Readings and settings for concrete runs: a reading with a given resident size, and
  the state of the main thread on a machine with \<open>n\<close> cores, with a memory limit, a
  number of runs, a duration of one second and \<^verbatim>\<open>startTime\<close> 0.\<close>

definition example_reading :: "nat \<Rightarrow> process_memory" where
  "example_reading bytes =
     \<lparr>rss = bytes, heapUsed = 0, heapTotal = 0, externalBytes = 0, arrayBuffers = 0\<rparr>"

definition example_env :: "nat \<Rightarrow> nat option \<Rightarrow> nat \<Rightarrow> benchmark_env" where
  "example_env n limit k =
     \<lparr>systemInfo = getSystemInfo (replicate n ''cpu'') 17179869184 ''host'',
      BENCHMARK_DURATION_MS = 1000, MAX_RAM_MB = limit, runs = k,
      outputFile = None, postUrl = None, startTime = 0\<rparr>"


section \<open>Properties of the work unit\<close>

lemma fib_loop_exit: "n < i \<Longrightarrow> fib_loop n i a b = Some b"
  by (subst fib_loop.simps) simp

lemma fib_loop_step:
  "i \<le> n \<Longrightarrow> fib_loop n i a b = fib_loop n (number_incr i) b (a + b)"
  by (subst fib_loop.simps) simp

text \<open>
  Loop invariant: on entry to the iteration for counter \<open>i = k + 2\<close> the two rolling
  values are the Fibonacci numbers at \<open>k\<close> and \<open>k + 1\<close>.
\<close>

lemma fib_loop_invariant:
  "i \<le> n + 1 \<Longrightarrow> n < 2 ^ 53 \<Longrightarrow> i = int k + 2
    \<Longrightarrow> fib_loop n i (fibonacci k) (fibonacci (k + 1)) = Some (fibonacci (nat n))"
proof (induction "nat (n + 1 - i)" arbitrary: i k)
  case 0
  then have eq: "i = n + 1" by simp
  then have "nat n = k + 1" using 0 by simp
  moreover have "fib_loop n i (fibonacci k) (fibonacci (k + 1)) = Some (fibonacci (k + 1))"
    using eq by (simp add: fib_loop_exit)
  ultimately show ?case by simp
next
  case (Suc m)
  then have le: "i \<le> n" by linarith
  with Suc.prems have inc: "number_incr i = i + 1" by (simp add: number_incr_def)
  have m: "m = nat (n + 1 - (i + 1))" using Suc.hyps(2) by linarith
  have "fib_loop n (i + 1) (fibonacci (k + 1)) (fibonacci (k + 1 + 1)) = Some (fibonacci (nat n))"
    by (rule Suc.hyps(1) [OF m]) (use le Suc.prems in simp_all)
  moreover have "fibonacci (k + 1 + 1) = fibonacci k + fibonacci (k + 1)" by simp
  ultimately show ?case using le inc by (simp add: fib_loop_step)
qed

text \<open>
  Once the index is \<open>2 ^ 53\<close> or more the counter can no longer pass it: the loop
  returns nothing.
\<close>

lemma fib_loop_stuck:
  assumes "fib_loop n i a b = Some y"
  shows "\<not> (i \<le> 2 ^ 53 \<and> 2 ^ 53 \<le> n)"
proof (rule fib_loop.raw_induct
    [where P = "\<lambda>n i a b y. \<not> (i \<le> 2 ^ 53 \<and> 2 ^ 53 \<le> n)", OF _ assms])
  fix f :: "int \<Rightarrow> int \<Rightarrow> int \<Rightarrow> int \<Rightarrow> int option" and n i a b y
  assume IH: "\<And>n i a b y. f n i a b = Some y \<Longrightarrow> \<not> (i \<le> 2 ^ 53 \<and> 2 ^ 53 \<le> n)"
    and body: "(if i \<le> n then f n (number_incr i) b (a + b) else Some b) = Some y"
  show "\<not> (i \<le> 2 ^ 53 \<and> 2 ^ 53 \<le> n)"
  proof
    assume h: "i \<le> 2 ^ 53 \<and> 2 ^ 53 \<le> n"
    then have "i \<le> n" by simp
    with body have "f n (number_incr i) b (a + b) = Some y" by simp
    from IH [OF this] have "\<not> (number_incr i \<le> 2 ^ 53 \<and> 2 ^ 53 \<le> n)" .
    with h show False by (simp add: number_incr_def split: if_splits)
  qed
qed

text \<open>
  Claim C3, as the code has it. For every integer index \<open>n\<close> with \<open>0 \<le> n < 2 ^ 53\<close>,
  \<^verbatim>\<open>calculateFibonacci(n)\<close> returns, and returns the standard Fibonacci number at
  index \<open>n\<close> (0 at index 0, 1 at index 1), computed by the loop over two rolling
  values. The function is a function of \<open>n\<close> alone, so two calls on the same index
  agree.
\<close>

theorem calculateFibonacci_standard:
  "0 \<le> n \<Longrightarrow> n < 2 ^ 53 \<Longrightarrow> calculateFibonacci n = Some (fibonacci (nat n))"
proof -
  assume n0: "0 \<le> n" and bound: "n < 2 ^ 53"
  show ?thesis
  proof (cases "n \<le> 1")
    case True
    with n0 have "n = 0 \<or> n = 1" by linarith
    then show ?thesis by (auto simp: calculateFibonacci_def)
  next
    case False
    then have "fib_loop n 2 (fibonacci 0) (fibonacci (0 + 1)) = Some (fibonacci (nat n))"
      using bound by (intro fib_loop_invariant) simp_all
    with False show ?thesis by (simp add: calculateFibonacci_def)
  qed
qed

theorem calculateFibonacci_standard_witness:
  "(0::int) \<le> 10 \<and> (10::int) < 2 ^ 53 \<and> calculateFibonacci 10 = Some 55
    \<and> fibonacci (nat 10) = 55"
proof -
  have v: "fibonacci (nat 10) = 55" by code_simp
  show ?thesis using calculateFibonacci_standard [of 10] v by simp
qed

text \<open>
  Claim C3, as stated, at the index \<open>2 ^ 53 = 9007199254740992\<close>, a non-negative
  integer and a Number: the loop counter reaches \<open>2 ^ 53\<close>, \<^verbatim>\<open>i++\<close> leaves it
  there, \<^verbatim>\<open>i <= n\<close> stays true, and the call never returns a value.
\<close>

theorem calculateFibonacci_unsafe_index_counterexample:
  "calculateFibonacci 9007199254740992 = None
    \<and> calculateFibonacci 9007199254740992 \<noteq> Some (fibonacci (nat 9007199254740992))"
proof -
  have "calculateFibonacci 9007199254740992 = None"
  proof (cases "calculateFibonacci 9007199254740992")
    case (Some y)
    then have "fib_loop 9007199254740992 2 0 1 = Some y"
      by (simp add: calculateFibonacci_def)
    from fib_loop_stuck [OF this] show ?thesis by simp
  qed simp
  then show ?thesis by simp
qed

text \<open>
  Claim C10. For every negative integer \<open>n\<close> the branch \<^verbatim>\<open>n <= 1\<close> is taken and
  \<^verbatim>\<open>calculateFibonacci(n)\<close> returns \<^verbatim>\<open>BigInt(n)\<close>, the index itself: no error
  is raised and the index is not clamped.
\<close>

theorem calculateFibonacci_negative:
  "n < 0 \<Longrightarrow> calculateFibonacci n = Some n"
  by (simp add: calculateFibonacci_def)

theorem calculateFibonacci_negative_witness:
  "(-5::int) < 0 \<and> calculateFibonacci (-5) = Some (-5)"
  using calculateFibonacci_negative [of "-5"] by simp


section \<open>Numbers as text: reading back what was written\<close>

lemma digit_cases:
  assumes "d < (10::nat)"
  shows "d = 0 \<or> d = 1 \<or> d = 2 \<or> d = 3 \<or> d = 4 \<or> d = 5 \<or> d = 6 \<or> d = 7 \<or> d = 8 \<or> d = 9"
  using assms by arith

lemma digit_char_props:
  assumes "d < 10"
  shows "digit_value (digit_char d) = d" and "is_digit (digit_char d)"
    and "digit_char d \<noteq> CHR '' ''"
  using digit_cases [OF assms]
  by (auto simp: digit_char_def digit_value_def is_digit_def)

lemma is_digit_not_special:
  assumes "is_digit c"
  shows "c \<noteq> CHR ''.''" and "c \<noteq> CHR ''-''" and "c \<noteq> CHR ''+''" and "c \<noteq> CHR ''I''"
    and "c \<noteq> CHR '' ''"
  using assms by (auto simp: is_digit_def)

lemma digits_value_snoc:
  "digits_value (ds @ [c]) = 10 * digits_value ds + digit_value c"
  by (simp add: digits_value_def)

lemma decimal_props:
  "digits_value (decimal n) = n \<and> (\<forall>c \<in> set (decimal n). is_digit c) \<and> decimal n \<noteq> []"
proof (induction n rule: decimal.induct)
  case (1 n)
  show ?case
  proof (cases "n < 10")
    case True
    then have "decimal n = [digit_char n]" by (subst decimal.simps) simp
    with True show ?thesis
      by (simp add: digit_char_props digits_value_def)
  next
    case False
    then have eq: "decimal n = decimal (n div 10) @ [digit_char (n mod 10)]"
      by (subst decimal.simps) simp
    have m: "n mod 10 < 10" by simp
    from 1 [OF False] m show ?thesis
      by (simp add: eq digits_value_snoc digit_char_props)
  qed
qed


text \<open>A text that starts with a digit is read without sign.\<close>

lemma parseFloat_unsigned:
  assumes "s = c # t" and "is_digit c"
  shows "parseFloat s =
    Fin (of_nat (digits_value (takeWhile is_digit s))
       + of_nat (digits_value (case dropWhile is_digit s of [] \<Rightarrow> []
            | c # t \<Rightarrow> if c = CHR ''.'' then takeWhile is_digit t else []))
         / 10 ^ length (case dropWhile is_digit s of [] \<Rightarrow> []
            | c # t \<Rightarrow> if c = CHR ''.'' then takeWhile is_digit t else []))"
proof -
  have sign: "take 1 s \<noteq> ''-''" "take 1 s \<noteq> ''+''"
    using assms is_digit_not_special by auto
  have inf: "take 8 s \<noteq> ''Infinity''"
    using assms is_digit_not_special(4) by auto
  have ip: "takeWhile is_digit s \<noteq> []" using assms by simp
  show ?thesis
    unfolding parseFloat_def Let_def using sign inf ip by simp
qed

lemma parseFloat_decimal: "parseFloat (decimal n) = Fin (of_nat n)"
proof -
  obtain c t where s: "decimal n = c # t" and c: "is_digit c"
    using decimal_props [of n] by (cases "decimal n") auto
  have all: "\<forall>c \<in> set (decimal n). is_digit c" using decimal_props by blast
  then have tw: "takeWhile is_digit (decimal n) = decimal n"
    and dw: "dropWhile is_digit (decimal n) = []" by auto
  show ?thesis
    using decimal_props [of n]
    by (simp add: parseFloat_unsigned [OF s c] tw dw digits_value_def)
qed

lemma parseFloat_fixed:
  assumes "a < 10" and "b < 10"
  shows "parseFloat (decimal q @ ''.'' @ [digit_char a, digit_char b])
    = Fin (of_nat q + of_nat (10 * a + b) / 100)"
proof -
  let ?s = "decimal q @ ''.'' @ [digit_char a, digit_char b]"
  obtain c t where s: "?s = c # t" and c: "is_digit c"
    using decimal_props [of q] by (cases "decimal q") auto
  have all: "\<And>x. x \<in> set (decimal q) \<Longrightarrow> is_digit x" using decimal_props by blast
  have nd: "\<not> is_digit CHR ''.''" by (simp add: is_digit_def)
  have tw: "takeWhile is_digit ?s = decimal q"
    using all nd by (simp add: takeWhile_append2)
  have dw: "dropWhile is_digit ?s = ''.'' @ [digit_char a, digit_char b]"
    using all nd by (simp add: dropWhile_append2)
  have fr: "takeWhile is_digit [digit_char a, digit_char b] = [digit_char a, digit_char b]"
    using assms by (simp add: digit_char_props)
  have fv: "digits_value [digit_char a, digit_char b] = 10 * a + b"
    using assms by (simp add: digits_value_def digit_char_props)
  have dv: "digits_value (decimal q) = q" using decimal_props by blast
  show ?thesis
    unfolding parseFloat_unsigned [OF s c] tw dw
    using assms by (simp add: digit_char_props digits_value_def dv [unfolded digits_value_def])
qed

lemma tens_digit: "(m::nat) mod 100 div 10 < 10"
  by (simp add: div_less_iff_less_mult)

lemma hundredths_split:
  "real (n div 100) + real (10 * (n mod 100 div 10) + n mod 10) / 100 = real n / 100"
proof -
  have "n mod 100 mod 10 = n mod 10" by (simp add: mod_mod_cancel)
  moreover have "10 * (n mod 100 div 10) + n mod 100 mod 10 = n mod 100" by simp
  ultimately have "10 * (n mod 100 div 10) + n mod 10 = n mod 100" by simp
  moreover have "real (n div 100) + real (n mod 100) / 100 = real n / 100"
  proof -
    have "real (100 * (n div 100) + n mod 100) = real n" by (simp only: mult_div_mod_eq)
    then have e: "100 * real (n div 100) + real (n mod 100) = real n"
      by (simp only: of_nat_add of_nat_mult of_nat_numeral)
    have "real n / 100 = (100 * real (n div 100) + real (n mod 100)) / 100" by (simp only: e)
    also have "\<dots> = real (n div 100) + real (n mod 100) / 100" by (simp add: add_divide_distrib)
    finally show ?thesis by simp
  qed
  ultimately show ?thesis by simp
qed

text \<open>What is read back from a two-decimal text of a non-negative value.\<close>

lemma parseFloat_toFixed2:
  assumes "0 \<le> x"
  shows "parseFloat (toFixed2 (Fin x)) = Fin (real (nat \<lfloor>x * 100 + 1 / 2\<rfloor>) / 100)"
proof -
  let ?n = "nat \<lfloor>x * 100 + 1 / 2\<rfloor>"
  have tf: "toFixed2 (Fin x) =
      decimal (?n div 100) @ ''.'' @ [digit_char (?n mod 100 div 10), digit_char (?n mod 10)]"
    using assms by (simp add: Let_def)
  have a: "?n mod 100 div 10 < 10" by (rule tens_digit)
  have b: "?n mod 10 < 10" by simp
  show ?thesis
    unfolding tf parseFloat_fixed [OF a b] hundredths_split ..
qed

lemma first_word_toFixed2:
  assumes "0 \<le> x"
  shows "first_word (toFixed2 (Fin x) @ CHR '' '' # unit) = toFixed2 (Fin x)"
proof -
  let ?n = "nat \<lfloor>x * 100 + 1 / 2\<rfloor>"
  have tf: "toFixed2 (Fin x) =
      decimal (?n div 100) @ ''.'' @ [digit_char (?n mod 100 div 10), digit_char (?n mod 10)]"
    using assms by (simp add: Let_def)
  have a: "?n mod 100 div 10 < 10" by (rule tens_digit)
  have b: "?n mod 10 < 10" by simp
  have "\<And>c. c \<in> set (toFixed2 (Fin x)) \<Longrightarrow> c \<noteq> CHR '' ''"
    unfolding tf using decimal_props [of "?n div 100"] digit_char_props(3) [OF a]
      digit_char_props(3) [OF b] is_digit_not_special(5) by auto
  then show ?thesis by (simp add: first_word_def takeWhile_append2)
qed

lemma first_word_decimal: "first_word (decimal n @ CHR '' '' # unit) = decimal n"
proof -
  have "\<And>c. c \<in> set (decimal n) \<Longrightarrow> c \<noteq> CHR '' ''"
    using decimal_props [of n] is_digit_not_special(5) by auto
  then show ?thesis by (simp add: first_word_def takeWhile_append2)
qed

lemma parseFloat_formatBytes:
  "parseFloat (first_word (formatBytes bytes)) = Fin (shown_value bytes)"
  by (simp add: formatBytes_def shown_value_def first_word_toFixed2 parseFloat_toFixed2
      first_word_decimal parseFloat_decimal del: toFixed2.simps)

lemma rounded_ge_1:
  assumes "1 \<le> x"
  shows "1 \<le> real (nat \<lfloor>x * 100 + 1 / 2\<rfloor>) / 100"
proof -
  have "(100::int) \<le> \<lfloor>x * 100 + 1 / 2\<rfloor>" using assms by (simp add: le_floor_iff)
  then have "100 \<le> nat \<lfloor>x * 100 + 1 / 2\<rfloor>" by linarith
  then show ?thesis by simp
qed

lemma shown_value_pos: "0 < bytes \<Longrightarrow> 0 < shown_value bytes"
proof -
  assume pos: "0 < bytes"
  have ge: "\<And>d::real. 0 < d \<Longrightarrow> d \<le> real bytes \<Longrightarrow> 1 \<le> real bytes / d"
    by (simp add: field_simps)
  show ?thesis
  proof (cases "bytes \<ge> 1024 * 1024 * 1024")
    case True
    then have "1 \<le> real bytes / (1024 * 1024 * 1024)" by (intro ge) simp_all
    from rounded_ge_1 [OF this] True show ?thesis by (simp add: shown_value_def)
  next
    case g: False
    show ?thesis
    proof (cases "bytes \<ge> 1024 * 1024")
      case True
      then have "1 \<le> real bytes / (1024 * 1024)" by (intro ge) simp_all
      from rounded_ge_1 [OF this] True g show ?thesis by (simp add: shown_value_def)
    next
      case m: False
      show ?thesis
      proof (cases "bytes \<ge> 1024")
        case True
        then have "1 \<le> real bytes / 1024" by (intro ge) simp_all
        from rounded_ge_1 [OF this] True g m show ?thesis by (simp add: shown_value_def)
      next
        case False
        with g m pos show ?thesis by (simp add: shown_value_def)
      qed
    qed
  qed
qed


section \<open>Properties of one run\<close>

lemmas handler_defs = on_message_def on_error_def on_exit_def on_memory_check_def on_timer_def
  resolve_def

lemma promise_handle_kept:
  "promise s = Some v \<Longrightarrow> promise (handle env k s ev) = Some v"
  by (cases ev) (simp_all add: handler_defs Let_def)

lemma promise_kept:
  "promise s = Some v \<Longrightarrow> promise (foldl (handle env k) s evs) = Some v"
  by (induction evs arbitrary: s) (simp_all add: promise_handle_kept)

lemma cleared_settled_handle:
  "(intervalCleared s \<longrightarrow> promise s \<noteq> None)
    \<Longrightarrow> (intervalCleared (handle env k s ev) \<longrightarrow> promise (handle env k s ev) \<noteq> None)"
  by (cases ev) (auto simp: handler_defs Let_def)

lemma cleared_settled:
  "(intervalCleared s \<longrightarrow> promise s \<noteq> None)
    \<Longrightarrow> (intervalCleared (foldl (handle env k) s evs)
          \<longrightarrow> promise (foldl (handle env k) s evs) \<noteq> None)"
proof (induction evs arbitrary: s)
  case Nil
  then show ?case by simp
next
  case (Cons ev evs)
  from Cons.IH [OF cleared_settled_handle [OF Cons.prems]] show ?case by simp
qed

lemma result_handle_origin:
  assumes "promise (handle env k s ev) = Some (Inr r)"
  shows "promise s = Some (Inr r)
    \<or> (\<exists>e u. ev = DurationTimer e u
          \<and> r = run_result_of env k (s\<lparr>workersTerminated := True, intervalCleared := True\<rparr>) e u)"
  using assms by (cases ev) (auto simp: handler_defs Let_def split: if_splits)

lemma result_origin:
  assumes "\<And>s ev. P s \<Longrightarrow> ev \<in> set evs \<Longrightarrow> P (handle env k s ev)"
    and "\<And>s. P s \<Longrightarrow> P (s\<lparr>workersTerminated := True, intervalCleared := True\<rparr>)"
    and "P s"
    and "promise (foldl (handle env k) s evs) = Some (Inr r)"
  shows "promise s = Some (Inr r)
    \<or> (\<exists>s' e u. DurationTimer e u \<in> set evs \<and> P s' \<and> r = run_result_of env k s' e u)"
  using assms
proof (induction evs arbitrary: s)
  case Nil
  then show ?case by simp
next
  case (Cons ev evs)
  have P': "P (handle env k s ev)" using Cons.prems(1) [OF Cons.prems(3)] by simp
  have step: "\<And>s ev'. P s \<Longrightarrow> ev' \<in> set evs \<Longrightarrow> P (handle env k s ev')"
    using Cons.prems(1) by simp
  from Cons.IH [OF step Cons.prems(2) P'] Cons.prems(4)
  consider "promise (handle env k s ev) = Some (Inr r)"
    | "\<exists>s' e u. DurationTimer e u \<in> set evs \<and> P s' \<and> r = run_result_of env k s' e u"
    by auto
  then show ?case
  proof cases
    case 1
    from result_handle_origin [OF 1] show ?thesis
    proof
      assume "promise s = Some (Inr r)"
      then show ?thesis by simp
    next
      assume "\<exists>e u. ev = DurationTimer e u
        \<and> r = run_result_of env k (s\<lparr>workersTerminated := True, intervalCleared := True\<rparr>) e u"
      then obtain e u where "ev = DurationTimer e u"
        and "r = run_result_of env k (s\<lparr>workersTerminated := True, intervalCleared := True\<rparr>) e u"
        by blast
      moreover have "P (s\<lparr>workersTerminated := True, intervalCleared := True\<rparr>)"
        using Cons.prems(2,3) by blast
      ultimately show ?thesis by auto
    qed
  next
    case 2
    then show ?thesis by auto
  qed
qed

text \<open>Before the timer fires a run is pending or has failed on the memory limit.\<close>

lemma no_result_before_timer:
  assumes "\<forall>e u. DurationTimer e u \<notin> set evs" and "promise s = None"
  shows "promise (foldl (handle env k) s evs) = None
    \<or> promise (foldl (handle env k) s evs) = Some (Inl RAM_LIMIT_EXCEEDED)"
proof (cases "promise (foldl (handle env k) s evs)")
  case None
  then show ?thesis by simp
next
  case (Some v)
  show ?thesis
  proof (cases v)
    case (Inl err)
    with Some show ?thesis by (cases err) simp
  next
    case (Inr r)
    with Some have "promise (foldl (handle env k) s evs) = Some (Inr r)" by simp
    from result_origin [where P = "\<lambda>s. True", OF _ _ _ this] assms show ?thesis by auto
  qed
qed

lemma memory_check_over_limit:
  assumes "over_limit env (rss c)" and "intervalCleared s \<longrightarrow> promise s \<noteq> None"
    and "promise s = None \<or> promise s = Some (Inl RAM_LIMIT_EXCEEDED)"
  shows "promise (handle env k s (MemoryCheck c u)) = Some (Inl RAM_LIMIT_EXCEEDED)"
  using assms by (auto simp: handler_defs Let_def)

lemma start_run_pending:
  "promise (start_run env u0 u1) = None" "\<not> intervalCleared (start_run env u0 u1)"
  by (simp_all add: start_run_def)

lemma over_limit_run:
  assumes "MAX_RAM_MB env = Some M" and "rss c > M * 1024 * 1024"
    and "events inp = pre @ MemoryCheck c u # post"
    and "\<forall>e u. DurationTimer e u \<notin> set pre"
  shows "promise (run_events env k (inp\<lparr>events := pre @ [MemoryCheck c u]\<rparr>))
      = Some (Inl RAM_LIMIT_EXCEEDED)"
    and "runSingleBenchmark env k inp = Some (Inl RAM_LIMIT_EXCEEDED)"
proof -
  let ?s0 = "start_run env (firstUsage inp) (firstRSS inp)"
  let ?s1 = "foldl (handle env k) ?s0 pre"
  have over: "over_limit env (rss c)" using assms(1,2) by (simp add: over_limit_def)
  have inv: "intervalCleared ?s1 \<longrightarrow> promise ?s1 \<noteq> None"
    by (rule cleared_settled) (simp add: start_run_pending)
  have cases: "promise ?s1 = None \<or> promise ?s1 = Some (Inl RAM_LIMIT_EXCEEDED)"
    by (rule no_result_before_timer [OF assms(4)]) (simp add: start_run_pending)
  have hit: "promise (handle env k ?s1 (MemoryCheck c u)) = Some (Inl RAM_LIMIT_EXCEEDED)"
    by (rule memory_check_over_limit [OF over inv cases])
  then show "promise (run_events env k (inp\<lparr>events := pre @ [MemoryCheck c u]\<rparr>))
      = Some (Inl RAM_LIMIT_EXCEEDED)"
    by (simp add: run_events_def)
  from promise_kept [OF hit, of env k post]
  show "runSingleBenchmark env k inp = Some (Inl RAM_LIMIT_EXCEEDED)"
    by (simp add: runSingleBenchmark_def run_events_def assms(3))
qed

lemma run_loop_failed:
  assumes "run \<le> runs env" and "runSingleBenchmark env run (inputs run) = Some (Inl err)"
  shows "run_loop env inputs run st
    = Some (st\<lparr>actions := actions st @ [StartRun run, RunFailed run err]\<rparr>)"
  using assms by (subst run_loop.simps) simp

lemma run_loop_completed:
  assumes "run < runs env" and "runSingleBenchmark env run (inputs run) = Some (Inr r)"
  shows "run_loop env inputs run st
    = run_loop env inputs (Suc run)
        (st\<lparr>allRuns := allRuns st @ [r], actions := actions st @ [StartRun run, Cooldown]\<rparr>)"
  using assms by (subst run_loop.simps) simp

lemma run_loop_stops:
  assumes "k \<le> runs env" and "run \<le> k"
    and "map (\<lambda>j. runSingleBenchmark env j (inputs j)) [run..<k] = map (Some \<circ> Inr) rs"
    and "runSingleBenchmark env k (inputs k) = Some (Inl err)"
  shows "run_loop env inputs run st
    = Some (st\<lparr>allRuns := allRuns st @ rs,
               actions := actions st @ concat (map (\<lambda>j. [StartRun j, Cooldown]) [run..<k])
                 @ [StartRun k, RunFailed k err]\<rparr>)"
  using assms(2,3)
proof (induction "k - run" arbitrary: run st rs)
  case 0
  then have "run = k" and "rs = []" by simp_all
  then show ?case using assms(1,4) by (simp add: run_loop_failed)
next
  case (Suc d)
  then have lt: "run < k" by simp
  then have upt: "[run..<k] = run # [Suc run..<k]" by (simp add: upt_conv_Cons)
  with Suc.prems(2) obtain r rs' where rs: "rs = r # rs'"
    and r: "runSingleBenchmark env run (inputs run) = Some (Inr r)"
    and rest: "map (\<lambda>j. runSingleBenchmark env j (inputs j)) [Suc run..<k] = map (Some \<circ> Inr) rs'"
    by (cases rs) auto
  have d: "d = k - Suc run" using Suc.hyps(2) by simp
  have le: "Suc run \<le> k" using lt by simp
  have run_lt: "run < runs env" using lt assms(1) by simp
  show ?case
    unfolding run_loop_completed [of run env inputs r, OF run_lt r] Suc.hyps(1) [OF d le rest]
    by (simp add: rs upt)
qed

lemma run_result_of_fields:
  "performanceMetrics (run_result_of env k s e u) = run_metrics env s e"
  "totalFibonacciIndex (run_result_of env k s e u) = totalFibIndex s"
  "activeWorkersAtEnd (run_result_of env k s e u) = activeWorkers s"
  "actualDurationMs (configuration (run_result_of env k s e u))
    = parseFloat (toFixed2 (number_div (Fin (of_int (e - startTime env))) (Fin 1000000)))"
  by (simp_all add: run_result_of_def Let_def)

lemma run_result_of_cores:
  "system (run_result_of env k s e u) = summary (systemInfo env)"
  "averageFibonacciIndexPerCore (run_result_of env k s e u)
    = Math_floor (number_div (Fin (of_int (totalFibIndex s))) (Fin (of_nat (numCores env))))"
  "cpuCores (summary info) = cores (cpu info)"
  by (simp_all add: run_result_of_def summary_def Let_def)

lemma run_metrics_fields:
  "calculationsPerSecond (run_metrics env s e)
    = Math_round (number_div (Fin (of_int (totalFibIndex s)))
        (number_div (number_div (Fin (of_int (e - startTime env))) (Fin 1000000)) (Fin 1000)))"
  "coreEfficiency (run_metrics env s e)
    = Math_round (number_mul
        (number_div (number_div (Fin (of_int (totalFibIndex s))) (Fin (of_nat (numCores env))))
                    (number_div (Fin (of_int (totalFibIndex s))) (Fin (of_nat (numCores env)))))
        (Fin 100))"
  "memoryEfficiency (run_metrics env s e)
    = Math_round (number_mul
        (number_div (Fin (of_int (totalFibIndex s)))
           (parseFloat (first_word (rssText (peakMemoryUsage s))))) (Fin 1000))"
  "overallScore (run_metrics env s e)
    = Math_round (number_mul
        (number_mul (calculationsPerSecond (run_metrics env s e))
           (number_div (coreEfficiency (run_metrics env s e)) (Fin 100)))
        (number_div (memoryEfficiency (run_metrics env s e)) (Fin 1000)))"
  by (simp_all add: run_metrics_def Let_def)

lemma completed_run_origin:
  assumes "runSingleBenchmark env k inp = Some (Inr r)"
    and "\<And>s ev. P s \<Longrightarrow> ev \<in> set (events inp) \<Longrightarrow> P (handle env k s ev)"
    and "\<And>s. P s \<Longrightarrow> P (s\<lparr>workersTerminated := True, intervalCleared := True\<rparr>)"
    and "P (start_run env (firstUsage inp) (firstRSS inp))"
  shows "\<exists>s e u. DurationTimer e u \<in> set (events inp) \<and> P s \<and> r = run_result_of env k s e u"
proof -
  have "promise (foldl (handle env k) (start_run env (firstUsage inp) (firstRSS inp)) (events inp))
      = Some (Inr r)"
    using assms(1) by (simp add: runSingleBenchmark_def run_events_def)
  from result_origin [where P = P, OF assms(2) assms(3) assms(4) this]
  show ?thesis by (simp add: start_run_pending)
qed

lemmas run_defs = runSingleBenchmark_def run_events_def start_run_def handler_defs over_limit_def
  Let_def

lemmas text_defs = formatBytes_def decimal.simps digit_char_def first_word_def parseFloat_def
  is_digit_def digits_value_def digit_value_def Let_def

lemma example_env_fields:
  "numCores (example_env n limit k) = n"
  "startTime (example_env n limit k) = 0"
  "MAX_RAM_MB (example_env n limit k) = limit"
  "runs (example_env n limit k) = k"
  by (simp_all add: numCores_def example_env_def getSystemInfo_def)

lemma example_reading_rss: "rss (example_reading b) = b"
  by (simp add: example_reading_def)

lemma toFixed2_1000: "parseFloat (toFixed2 (Fin 1000)) = Fin 1000"
  by (simp add: text_defs)

lemma toFixed2_4000: "parseFloat (toFixed2 (Fin 4000)) = Fin 4000"
  by (simp add: text_defs)


section \<open>The claims about a run and about the sequence of runs\<close>

text \<open>
  Claim C1, as the code has it. A run that completes with \<^verbatim>\<open>totalFibIndex\<close> equal
  to 0 (given that the clock has advanced since \<^verbatim>\<open>startTime\<close> and that the memory
  readings are positive) raises no error: its result object is built by the same
  formulas as that of any other run, with \<^verbatim>\<open>calculationsPerSecond\<close> 0 and
  \<^verbatim>\<open>memoryEfficiency\<close> 0. The result object has no field that flags a degraded
  run, and \<^verbatim>\<open>overallScore\<close> is computed for every run.
\<close>

theorem zero_units_run:
  assumes "runSingleBenchmark env k inp = Some (Inr r)"
    and "totalFibonacciIndex r = 0"
    and "0 < rss (firstUsage inp)"
    and "\<forall>c u. MemoryCheck c u \<in> set (events inp) \<longrightarrow> 0 < rss u"
    and "\<forall>e u. DurationTimer e u \<in> set (events inp) \<longrightarrow> startTime env < e"
  shows "calculationsPerSecond (performanceMetrics r) = Fin 0
    \<and> memoryEfficiency (performanceMetrics r) = Fin 0"
proof -
  let ?P = "\<lambda>s::run_state. \<exists>u. peakMemoryUsage s = getMemoryUsage u \<and> 0 < rss u"
  have step: "\<And>s ev. ?P s \<Longrightarrow> ev \<in> set (events inp) \<Longrightarrow> ?P (handle env k s ev)"
  proof -
    fix s ev
    assume P: "?P s" and ev: "ev \<in> set (events inp)"
    show "?P (handle env k s ev)"
    proof (cases ev)
      case (MemoryCheck c u)
      with ev assms(4) have "0 < rss u" by blast
      with P MemoryCheck show ?thesis by (auto simp: handler_defs Let_def)
    qed (use P in \<open>auto simp: handler_defs Let_def\<close>)
  qed
  have init: "?P (start_run env (firstUsage inp) (firstRSS inp))"
    using assms(3) by (auto simp: start_run_def)
  from completed_run_origin [where P = ?P, OF assms(1) step _ init]
  obtain s e u u' where timer: "DurationTimer e u \<in> set (events inp)"
    and peak: "peakMemoryUsage s = getMemoryUsage u'" and pos: "0 < rss u'"
    and r: "r = run_result_of env k s e u" by auto
  have t: "totalFibIndex s = 0" using assms(2) r by (simp add: run_result_of_fields)
  have e: "startTime env < e" using timer assms(5) by blast
  have rd: "parseFloat (first_word (rssText (peakMemoryUsage s))) = Fin (shown_value (rss u'))"
    by (simp add: peak getMemoryUsage_def parseFloat_formatBytes)
  have sv: "shown_value (rss u') \<noteq> 0" using shown_value_pos [OF pos] by simp
  have "calculationsPerSecond (run_metrics env s e) = Fin 0"
    using e by (simp add: run_metrics_fields t)
  moreover have "memoryEfficiency (run_metrics env s e) = Fin 0"
    using sv by (simp add: run_metrics_fields t rd)
  ultimately show ?thesis by (simp add: r run_result_of_fields)
qed

text \<open>
  A run on four cores in which no worker reports a unit: one memory check, then
  the timer after one second.
\<close>

theorem zero_units_run_witness:
  "map_option
     (map_sum id (\<lambda>r. (totalFibonacciIndex r, calculationsPerSecond (performanceMetrics r),
        memoryEfficiency (performanceMetrics r))))
     (runSingleBenchmark (example_env 4 None 1) 1
        \<lparr>firstUsage = example_reading 52428800, firstRSS = example_reading 52428800,
         events = [MemoryCheck (example_reading 62914560) (example_reading 62914560),
                   DurationTimer 1000000000 (example_reading 52428800)]\<rparr>)
   = Some (Inr (0, Fin 0, Fin 0))"
proof -
  let ?env = "example_env 4 None 1"
  let ?inp = "\<lparr>firstUsage = example_reading 52428800, firstRSS = example_reading 52428800,
         events = [MemoryCheck (example_reading 62914560) (example_reading 62914560),
                   DurationTimer 1000000000 (example_reading 52428800)]\<rparr>"
  obtain r where run: "runSingleBenchmark ?env 1 ?inp = Some (Inr r)"
    and total: "totalFibonacciIndex r = 0"
    by (simp add: run_defs run_result_of_fields example_env_fields example_reading_rss)
  have h3: "0 < rss (firstUsage ?inp)" by (simp add: example_reading_rss)
  have h4: "\<forall>c u. MemoryCheck c u \<in> set (events ?inp) \<longrightarrow> 0 < rss u"
    by (simp add: example_reading_rss)
  have h5: "\<forall>e u. DurationTimer e u \<in> set (events ?inp) \<longrightarrow> startTime ?env < e"
    by (simp add: example_env_fields)
  from zero_units_run [OF run total h3 h4 h5] total run
  show ?thesis by simp
qed

text \<open>
  Claim C1, as stated, on a run of one second on four cores in which no worker
  reports a unit. \<^verbatim>\<open>coreEfficiency\<close> is \<^verbatim>\<open>Math.round((0 / 4) / (0 / 4) * 100)\<close>, which
  is NaN, and \<^verbatim>\<open>overallScore\<close> is computed from it: the score of the result is NaN,
  not zero.
\<close>

theorem zero_units_score_counterexample:
  "map_option (map_sum id (overallScore \<circ> performanceMetrics))
    (runSingleBenchmark (example_env 4 None 1) 1
      \<lparr>firstUsage = example_reading 52428800, firstRSS = example_reading 52428800,
       events = [DurationTimer 1000000000 (example_reading 52428800)]\<rparr>) = Some (Inr NaN)
   \<and> map_option (map_sum id (overallScore \<circ> performanceMetrics))
    (runSingleBenchmark (example_env 4 None 1) 1
      \<lparr>firstUsage = example_reading 52428800, firstRSS = example_reading 52428800,
       events = [DurationTimer 1000000000 (example_reading 52428800)]\<rparr>) \<noteq> Some (Inr (Fin 0))"
  by (simp add: run_defs example_env_fields run_result_of_fields run_metrics_fields signed_inf_def)

text \<open>
  Claim C2. Let the memory limit be \<open>M\<close> megabytes, let the runs before run \<open>k\<close>
  have completed with the results \<open>rs\<close>, and let run \<open>k\<close> receive, before its
  timer fires, a memory check whose reading of the resident size exceeds
  \<open>M \<cdot> 1024 \<cdot> 1024\<close> bytes. Then the promise of run \<open>k\<close> is settled with
  \<^verbatim>\<open>RAM_LIMIT_EXCEEDED\<close> by that memory check, before the timer of the duration,
  and stays so; the collected runs are exactly \<open>rs\<close>, with nothing appended for run
  \<open>k\<close>; and after the failure of run \<open>k\<close> no further run is started.
\<close>

theorem ram_limit_fail_fast:
  assumes "MAX_RAM_MB env = Some M"
    and "1 \<le> k" and "k \<le> runs env"
    and "map (\<lambda>j. runSingleBenchmark env j (inputs j)) [1..<k] = map (Some \<circ> Inr) rs"
    and "events (inputs k) = pre @ MemoryCheck c u # post"
    and "\<forall>e u. DurationTimer e u \<notin> set pre"
    and "M * 1024 * 1024 < rss c"
  shows "promise (run_events env k ((inputs k)\<lparr>events := pre @ [MemoryCheck c u]\<rparr>))
      = Some (Inl RAM_LIMIT_EXCEEDED)
    \<and> runSingleBenchmark env k (inputs k) = Some (Inl RAM_LIMIT_EXCEEDED)
    \<and> map_option (\<lambda>(report, acts). (individualRuns report, acts))
        (runAllBenchmarks env inputs now)
      = Some (rs, concat (map (\<lambda>j. [StartRun j, Cooldown]) [1..<k])
                @ [StartRun k, RunFailed k RAM_LIMIT_EXCEEDED])"
proof -
  note run = over_limit_run [OF assms(1) assms(7) assms(5) assms(6)]
  have "run_loop env inputs 1 \<lparr>allRuns = [], actions = []\<rparr>
    = Some (\<lparr>allRuns = [], actions = []\<rparr>\<lparr>allRuns := allRuns \<lparr>allRuns = [], actions = []\<rparr> @ rs,
         actions := actions \<lparr>allRuns = [], actions = []\<rparr>
           @ concat (map (\<lambda>j. [StartRun j, Cooldown]) [1..<k])
           @ [StartRun k, RunFailed k RAM_LIMIT_EXCEEDED]\<rparr>)"
    by (rule run_loop_stops [OF assms(3) assms(2) assms(4) run(2)])
  then have "map_option (\<lambda>(report, acts). (individualRuns report, acts))
        (runAllBenchmarks env inputs now)
      = Some (rs, concat (map (\<lambda>j. [StartRun j, Cooldown]) [1..<k])
                @ [StartRun k, RunFailed k RAM_LIMIT_EXCEEDED])"
    by (simp add: runAllBenchmarks_def build_results_def)
  with run show ?thesis by simp
qed

text \<open>
  Three runs are configured with a limit of 100 MB. The first run completes; in
  the second a memory check reads 200 MB. One result is collected and the third
  run is never started.
\<close>

theorem ram_limit_fail_fast_witness:
  "runSingleBenchmark (example_env 4 (Some 100) 3) 2
      \<lparr>firstUsage = example_reading 52428800, firstRSS = example_reading 52428800,
       events = [WorkerMessage 0 1 0,
                 MemoryCheck (example_reading 209715200) (example_reading 209715200),
                 WorkerMessage 1 1 0, DurationTimer 4000000000 (example_reading 52428800)]\<rparr>
     = Some (Inl RAM_LIMIT_EXCEEDED)
   \<and> map_option (\<lambda>(report, acts). (length (individualRuns report), acts))
       (runAllBenchmarks (example_env 4 (Some 100) 3)
         (\<lambda>run. \<lparr>firstUsage = example_reading 52428800, firstRSS = example_reading 52428800,
            events = (if run = 1
              then [WorkerMessage 0 1 0, DurationTimer 1000000000 (example_reading 52428800)]
              else [WorkerMessage 0 1 0,
                    MemoryCheck (example_reading 209715200) (example_reading 209715200),
                    WorkerMessage 1 1 0,
                    DurationTimer 4000000000 (example_reading 52428800)])\<rparr>) 4100000000)
     = Some (1, [StartRun 1, Cooldown, StartRun 2, RunFailed 2 RAM_LIMIT_EXCEEDED])"
proof -
  let ?env = "example_env 4 (Some 100) 3"
  let ?inputs = "\<lambda>run::nat.
         \<lparr>firstUsage = example_reading 52428800, firstRSS = example_reading 52428800,
            events = (if run = 1
              then [WorkerMessage 0 1 0, DurationTimer 1000000000 (example_reading 52428800)]
              else [WorkerMessage 0 1 0,
                    MemoryCheck (example_reading 209715200) (example_reading 209715200),
                    WorkerMessage 1 1 0,
                    DurationTimer 4000000000 (example_reading 52428800)])\<rparr>"
  obtain r where first: "runSingleBenchmark ?env 1 (?inputs 1) = Some (Inr r)"
    by (simp add: run_defs)
  have h1: "MAX_RAM_MB ?env = Some 100" by (simp add: example_env_fields)
  have h2: "(1::nat) \<le> 2" by simp
  have h3: "2 \<le> runs ?env" by (simp add: example_env_fields)
  have h4: "map (\<lambda>j. runSingleBenchmark ?env j (?inputs j)) [1..<2] = map (Some \<circ> Inr) [r]"
    using first by (simp add: upt_rec)
  have h5: "events (?inputs 2) = [WorkerMessage 0 1 0]
      @ MemoryCheck (example_reading 209715200) (example_reading 209715200)
      # [WorkerMessage 1 1 0, DurationTimer 4000000000 (example_reading 52428800)]"
    by simp
  have h6: "\<forall>e u. DurationTimer e u \<notin> set [WorkerMessage 0 1 0]" by simp
  have h7: "100 * 1024 * 1024 < rss (example_reading 209715200)"
    by (simp add: example_reading_rss)
  from ram_limit_fail_fast [OF h1 h2 h3 h4 h5 h6 h7, of 4100000000]
  show ?thesis by (simp add: upt_rec map_option_case split: option.splits prod.splits)
qed

text \<open>
  Claim C4, on two runs of one second each (\<^verbatim>\<open>startTime\<close> is 0, times in
  nanoseconds). The timer of the first run fires at 1 s; after the cooldown of 2 s
  the second run starts at 3 s and its timer fires at 4 s. Each run receives four
  messages. \<^verbatim>\<open>startTime\<close> is read once, before the first run, and every run
  subtracts that same value: the second run reports an \<^verbatim>\<open>actualDurationMs\<close> of
  4000, which holds the first run and the cooldown, and its
  \<^verbatim>\<open>calculationsPerSecond\<close> is 1, where its own second of work gives 4.
\<close>

theorem second_run_duration_cumulative:
  "map_option
     (\<lambda>(report, acts).
        map (\<lambda>r. (actualDurationMs (configuration r), calculationsPerSecond (performanceMetrics r)))
          (individualRuns report))
     (runAllBenchmarks (example_env 4 None 2)
       (\<lambda>run. \<lparr>firstUsage = example_reading 52428800, firstRSS = example_reading 52428800,
          events = [WorkerMessage 0 1 0, WorkerMessage 1 1 0, WorkerMessage 0 1 1,
                    WorkerMessage 1 1 1,
                    DurationTimer (if run = 1 then 1000000000 else 4000000000)
                      (example_reading 52428800)]\<rparr>) 4000000000)
   = Some [(Fin 1000, Fin 4), (Fin 4000, Fin 1)]"
  by (simp add: runAllBenchmarks_def run_loop.simps run_defs example_env_fields build_results_def
      run_result_of_fields run_metrics_fields toFixed2_1000 toFixed2_4000 del: toFixed2.simps)

text \<open>
  Claim C5, on a run with two units and a peak resident size of 2 GB
  (2147483648 bytes). The peak is kept as the text \<^verbatim>\<open>2.00 GB\<close>; the formula reads
  the number 2 from it and drops the unit, so \<^verbatim>\<open>memoryEfficiency\<close> is
  \<^verbatim>\<open>Math.round(2 / 2 * 1000)\<close>, which is 1000. Per megabyte of the peak, as the
  claim has it, the value is \<^verbatim>\<open>Math.round(2 / 2048 * 1000)\<close>, which is 1.
\<close>

theorem memoryEfficiency_drops_unit:
  "map_option (map_sum id (memoryEfficiency \<circ> performanceMetrics))
    (runSingleBenchmark (example_env 4 None 1) 1
      \<lparr>firstUsage = example_reading 2147483648, firstRSS = example_reading 2147483648,
       events = [WorkerMessage 0 1 0, WorkerMessage 1 1 0,
                 DurationTimer 1000000000 (example_reading 2147483648)]\<rparr>) = Some (Inr (Fin 1000))
   \<and> Math_round (Fin (2 / (2147483648 / 2 ^ 20) * 1000)) = Fin 1"
proof -
  have rd: "parseFloat (first_word (formatBytes 2147483648)) = Fin 2"
    by (simp add: text_defs)
  show ?thesis
    by (simp add: run_defs example_env_fields run_result_of_fields run_metrics_fields
        getMemoryUsage_def example_reading_rss rd)
qed

text \<open>
  Claim C6, where \<^verbatim>\<open>os.cpus()\<close> returns the empty list. The model name falls back
  to \<^verbatim>\<open>'N/A'\<close>, but the number of cores is the length of the list, 0, and
  \<^verbatim>\<open>numCores\<close> is used as it is: the loop that creates the workers creates none,
  and a run of one second completes with \<^verbatim>\<open>cpuCores\<close> 0, \<^verbatim>\<open>activeWorkersAtEnd\<close> 0
  and a per-core average of \<^verbatim>\<open>Math.floor(0 / 0)\<close>, which is NaN. With a core count
  of 1, as the claim has it, one worker is created and the average is a number.
\<close>

theorem no_core_fallback:
  "cpu (getSystemInfo [] 17179869184 ''host'') = \<lparr>model = ''N/A'', cores = 0\<rparr>
   \<and> numCores ((example_env 4 None 1)\<lparr>systemInfo := getSystemInfo [] 17179869184 ''host''\<rparr>) = 0
   \<and> workers (start_run
         ((example_env 4 None 1)\<lparr>systemInfo := getSystemInfo [] 17179869184 ''host''\<rparr>)
         (example_reading 52428800) (example_reading 52428800)) = []
   \<and> map_option
        (map_sum id
          (\<lambda>r. (cpuCores (system r), activeWorkersAtEnd r, averageFibonacciIndexPerCore r)))
        (runSingleBenchmark
          ((example_env 4 None 1)\<lparr>systemInfo := getSystemInfo [] 17179869184 ''host''\<rparr>) 1
          \<lparr>firstUsage = example_reading 52428800, firstRSS = example_reading 52428800,
           events = [DurationTimer 1000000000 (example_reading 52428800)]\<rparr>)
      = Some (Inr (0, 0, NaN))"
proof -
  let ?env = "(example_env 4 None 1)\<lparr>systemInfo := getSystemInfo [] 17179869184 ''host''\<rparr>"
  have cores: "\<And>k. numCores
      ((example_env 4 None k)\<lparr>systemInfo := getSystemInfo [] 17179869184 ''host''\<rparr>) = 0"
    by (simp add: numCores_def getSystemInfo_def)
  have info: "cpu (getSystemInfo [] 17179869184 ''host'') = \<lparr>model = ''N/A'', cores = 0\<rparr>"
    by (simp add: getSystemInfo_def)
  have spawn: "workers (start_run ?env (example_reading 52428800) (example_reading 52428800)) = []"
    by (simp add: start_run_def cores)
  have run: "map_option
        (map_sum id
          (\<lambda>r. (cpuCores (system r), activeWorkersAtEnd r, averageFibonacciIndexPerCore r)))
        (runSingleBenchmark ?env 1
          \<lparr>firstUsage = example_reading 52428800, firstRSS = example_reading 52428800,
           events = [DurationTimer 1000000000 (example_reading 52428800)]\<rparr>)
      = Some (Inr (0, 0, NaN))"
    by (simp add: run_defs cores run_result_of_fields run_result_of_cores info signed_inf_def)
  from info cores spawn run show ?thesis by simp
qed

text \<open>
  Claim C7, on a single configured run with a limit of 1 MB whose first memory
  check reads 50 MB. No result is collected. The total of the calculations is 0,
  but the averages are \<^verbatim>\<open>Math.round(0 / 0)\<close>, the best score is \<^verbatim>\<open>Math.max()\<close> of
  nothing and the worst score is \<^verbatim>\<open>Math.min()\<close> of nothing: NaN, \<^verbatim>\<open>-Infinity\<close> and
  \<^verbatim>\<open>Infinity\<close>, and the variance is \<^verbatim>\<open>-Infinity\<close>.
\<close>

theorem empty_aggregate:
  "map_option (\<lambda>(report, acts). (completedRuns (benchmarkInfo report), aggregatedResults report))
     (runAllBenchmarks (example_env 4 (Some 1) 1)
       (\<lambda>run. \<lparr>firstUsage = example_reading 52428800, firstRSS = example_reading 52428800,
          events = [MemoryCheck (example_reading 52428800) (example_reading 52428800),
                    DurationTimer 1000000000 (example_reading 52428800)]\<rparr>) 1100000000)
   = Some (0, \<lparr>totalCalculations = Fin 0, averageCalculationsPerRun = NaN, averageScore = NaN,
        bestScore = NegInf, worstScore = PosInf, scoreVariance = NegInf\<rparr>)"
proof -
  have "runSingleBenchmark (example_env 4 (Some 1) 1) 1
      \<lparr>firstUsage = example_reading 52428800, firstRSS = example_reading 52428800,
          events = [MemoryCheck (example_reading 52428800) (example_reading 52428800),
                    DurationTimer 1000000000 (example_reading 52428800)]\<rparr>
     = Some (Inl RAM_LIMIT_EXCEEDED)"
    by (simp add: run_defs example_env_fields example_reading_rss)
  then show ?thesis
    by (simp add: runAllBenchmarks_def run_loop.simps example_env_fields build_results_def
        aggregate_def Math_max_def Math_min_def number_sub_def signed_inf_def)
qed

text \<open>
  Claim C8, on a run on four cores in which worker 0 throws. A worker that throws
  an uncaught exception emits \<^verbatim>\<open>'error'\<close> and, once it has stopped, \<^verbatim>\<open>'exit'\<close> with
  code 1; both handlers decrement \<^verbatim>\<open>activeWorkers\<close>. With one failed worker of
  four, \<^verbatim>\<open>activeWorkersAtEnd\<close> is 2, where the claim has 3.
\<close>

theorem worker_error_counted_twice:
  "map_option (map_sum id activeWorkersAtEnd)
    (runSingleBenchmark (example_env 4 None 1) 1
      \<lparr>firstUsage = example_reading 52428800, firstRSS = example_reading 52428800,
       events = [WorkerMessage 1 1 0, WorkerError 0, WorkerExit 0 1, WorkerMessage 1 1 1,
                 DurationTimer 1000000000 (example_reading 52428800)]\<rparr>) = Some (Inr 2)"
  by (simp add: run_defs example_env_fields run_result_of_fields)

text \<open>
  Claim C9. For every run that completes with a total of more than 0 units on a
  machine with at least one core, \<^verbatim>\<open>coreEfficiency\<close> is 100: the formula divides
  \<^verbatim>\<open>totalFibIndex / numCores\<close> by itself, whatever share of the units each worker
  has reported.
\<close>

theorem coreEfficiency_constant:
  assumes "runSingleBenchmark env k inp = Some (Inr r)"
    and "0 < totalFibonacciIndex r" and "1 \<le> numCores env"
  shows "coreEfficiency (performanceMetrics r) = Fin 100"
proof -
  from completed_run_origin [where P = "\<lambda>s. True", OF assms(1)]
  obtain s e u where r: "r = run_result_of env k s e u" by auto
  with assms(2) have t: "0 < totalFibIndex s" by (simp add: run_result_of_fields)
  have n: "real (numCores env) \<noteq> 0" using assms(3) by simp
  have t': "real_of_int (totalFibIndex s) \<noteq> 0" using t by simp
  show ?thesis
    using n t' by (simp add: r run_result_of_fields run_metrics_fields)
qed

text \<open>A run on four cores in which worker 0 reports two units and worker 1 one unit.\<close>

theorem coreEfficiency_constant_witness:
  "1 \<le> numCores (example_env 4 None 1)
   \<and> map_option (map_sum id (\<lambda>r. (totalFibonacciIndex r, coreEfficiency (performanceMetrics r))))
      (runSingleBenchmark (example_env 4 None 1) 1
        \<lparr>firstUsage = example_reading 52428800, firstRSS = example_reading 52428800,
         events = [WorkerMessage 0 1 0, WorkerMessage 1 1 0, WorkerMessage 0 1 1,
                   DurationTimer 1000000000 (example_reading 52428800)]\<rparr>)
     = Some (Inr (3, Fin 100))"
proof -
  let ?env = "example_env 4 None 1"
  let ?inp = "\<lparr>firstUsage = example_reading 52428800, firstRSS = example_reading 52428800,
         events = [WorkerMessage 0 1 0, WorkerMessage 1 1 0, WorkerMessage 0 1 1,
                   DurationTimer 1000000000 (example_reading 52428800)]\<rparr>"
  obtain r where run: "runSingleBenchmark ?env 1 ?inp = Some (Inr r)"
    and total: "totalFibonacciIndex r = 3"
    by (simp add: run_defs run_result_of_fields)
  have cores: "1 \<le> numCores ?env" by (simp add: example_env_fields)
  have "0 < totalFibonacciIndex r" using total by simp
  from coreEfficiency_constant [OF run this cores] cores total run
  show ?thesis by simp
qed

end
